theory Spec2Isabelle
  imports Main
begin

section \<open>Python values\<close>

text \<open>
  A string is a list of characters; a character stands for a code point below 256.
  A decoded backend response is a dictionary with string keys, kept as an association
  list in insertion order; \<open>d.get(k)\<close> reads the first binding and gives \<open>None\<close> for a
  missing key. The values are the decoded JSON values without floating-point numbers.
\<close>

datatype json =
    JNull
  | JBool bool
  | JInt int
  | JStr string
  | JList "json list"
  | JDict "(string \<times> json) list"

type_synonym pydict = "(string \<times> json) list"

definition dict_get :: "pydict \<Rightarrow> string \<Rightarrow> json" where
  "dict_get d k = (case map_of d k of None \<Rightarrow> JNull | Some v \<Rightarrow> v)"

datatype error =
    ChannelRefParseError string
  | ChannelResolutionError string
  | QuotaBudgetExceeded int int
  | ChannelInventoryError string
  | ValueError string
  | TypeError
  | AttributeError
  | YouTubeApiError string

subsection \<open>String methods\<close>

text \<open>\<open>str.isspace\<close> on the code points below 256.\<close>

definition is_space :: "char \<Rightarrow> bool" where
  "is_space c = ((of_char c :: nat) \<in> {9, 10, 11, 12, 13, 28, 29, 30, 31, 32, 133, 160})"

definition strip :: "string \<Rightarrow> string" where
  "strip s = rev (dropWhile is_space (rev (dropWhile is_space s)))"

definition strip_chars :: "char \<Rightarrow> string \<Rightarrow> string" where
  "strip_chars c s = rev (dropWhile (\<lambda>x. x = c) (rev (dropWhile (\<lambda>x. x = c) s)))"

definition startswith :: "string \<Rightarrow> string \<Rightarrow> bool" where
  "startswith s p = (take (length p) s = p)"

text \<open>\<open>str.lower\<close> on the code points below 256: the ASCII and the Latin-1 capitals.\<close>

definition lower_char :: "char \<Rightarrow> char" where
  "lower_char c =
     (let n = (of_char c :: nat)
      in if (65 \<le> n \<and> n \<le> 90) \<or> (192 \<le> n \<and> n \<le> 222 \<and> n \<noteq> 215)
         then char_of (n + 32) else c)"

definition lower :: "string \<Rightarrow> string" where
  "lower s = map lower_char s"

fun join :: "string \<Rightarrow> string list \<Rightarrow> string" where
  "join sep [] = []"
| "join sep [x] = x"
| "join sep (x # y # ys) = x @ sep @ join sep (y # ys)"

text \<open>The slice \<open>xs[:n]\<close>; a negative \<open>n\<close> counts from the end.\<close>

definition py_take :: "int \<Rightarrow> 'a list \<Rightarrow> 'a list" where
  "py_take n xs = (if 0 \<le> n then take (nat n) xs else take (length xs - nat (- n)) xs)"

section \<open>channel_ref: the reference parser\<close>

datatype ChannelRefKind = Handle | Channel_id | Username | Custom_url | Query

record ChannelRef =
  kind :: ChannelRefKind
  ref_value :: string
  raw :: string

text \<open>
  \<open>urllib.parse.urlparse\<close> belongs to the standard library and is taken as a parameter:
  it gives the scheme, the network location and the path of a string, or raises
  \<open>ValueError\<close> (the result \<open>None\<close> here).
\<close>

record ParseResult =
  scheme :: string
  netloc :: string
  path :: string

type_synonym urlparse_fn = "string \<Rightarrow> ParseResult option"

definition YOUTUBE_HOSTS :: "string list" where
  "YOUTUBE_HOSTS = [''youtube.com'', ''www.youtube.com'', ''m.youtube.com'']"

definition PATH_AT_HANDLE :: string where "PATH_AT_HANDLE = ''/@''"
definition PATH_CHANNEL :: string where "PATH_CHANNEL = ''/channel/''"
definition PATH_USER :: string where "PATH_USER = ''/user/''"
definition PATH_CUSTOM :: string where "PATH_CUSTOM = ''/c/''"
definition MIN_CHANNEL_ID_LEN :: nat where "MIN_CHANNEL_ID_LEN = 16"

definition require_non_empty :: "string \<Rightarrow> string \<Rightarrow> error + unit" where
  "require_non_empty v message = (if v = [] then Inl (ChannelRefParseError message) else Inr ())"

definition has_separator :: "string \<Rightarrow> bool" where
  "has_separator v = (CHR ''/'' \<in> set v \<or> CHR ''?'' \<in> set v \<or> CHR ''#'' \<in> set v)"

definition reject_separators :: "string \<Rightarrow> string \<Rightarrow> error + unit" where
  "reject_separators v label =
     (if has_separator v
      then Inl (ChannelRefParseError (label @ '' contains invalid URL separator characters''))
      else Inr ())"

definition normalize_raw :: "string \<Rightarrow> error + string" where
  "normalize_raw user_input =
     (let r = strip user_input
      in case require_non_empty r ''Channel reference cannot be empty'' of
           Inl e \<Rightarrow> Inl e
         | Inr _ \<Rightarrow> Inr r)"

definition looks_like_channel_id :: "string \<Rightarrow> bool" where
  "looks_like_channel_id v =
     (startswith v ''UC'' \<and> MIN_CHANNEL_ID_LEN \<le> length v \<and> CHR '' '' \<notin> set v)"

text \<open>
  The four recognised path prefixes share one shape: cut the prefix, strip slashes,
  require a non-empty and separator-free segment.
\<close>

definition path_segment ::
  "string \<Rightarrow> string \<Rightarrow> string \<Rightarrow> string \<Rightarrow> ChannelRefKind \<Rightarrow> string
     \<Rightarrow> error + ChannelRef option" where
  "path_segment pth prefix empty_msg label k r =
     (let seg = strip_chars CHR ''/'' (drop (length prefix) pth)
      in case require_non_empty seg empty_msg of
           Inl e \<Rightarrow> Inl e
         | Inr _ \<Rightarrow>
             (case reject_separators seg label of
                Inl e \<Rightarrow> Inl e
              | Inr _ \<Rightarrow> Inr (Some \<lparr>kind = k, ref_value = seg, raw = r\<rparr>)))"

definition try_parse_youtube_url :: "urlparse_fn \<Rightarrow> string \<Rightarrow> error + ChannelRef option" where
  "try_parse_youtube_url urlparse r =
     (let candidate =
            (if startswith r ''youtube.com/'' \<or> startswith r ''www.youtube.com/''
                \<or> startswith r ''m.youtube.com/''
             then ''https://'' @ r else r)
      in case urlparse candidate of
           None \<Rightarrow> Inl (ValueError ''urlparse'')
         | Some parsed \<Rightarrow>
             if scheme parsed \<noteq> [] \<and> scheme parsed \<notin> {''http'', ''https''} then Inr None
             else
               let host = lower (netloc parsed)
               in if host = [] \<or> host \<notin> set YOUTUBE_HOSTS then Inr None
                  else
                    let pth = path parsed
                    in if startswith pth PATH_AT_HANDLE then
                         path_segment pth PATH_AT_HANDLE ''Handle cannot be empty'' ''Handle'' Handle r
                       else if startswith pth PATH_CHANNEL then
                         path_segment pth PATH_CHANNEL ''Channel ID cannot be empty''
                           ''Channel ID'' Channel_id r
                       else if startswith pth PATH_USER then
                         path_segment pth PATH_USER ''Username cannot be empty'' ''Username''
                           Username r
                       else if startswith pth PATH_CUSTOM then
                         path_segment pth PATH_CUSTOM ''Custom URL segment cannot be empty''
                           ''Custom URL segment'' Custom_url r
                       else Inr (Some \<lparr>kind = Query, ref_value = r, raw = r\<rparr>))"

definition parse_channel_ref :: "urlparse_fn \<Rightarrow> string \<Rightarrow> error + ChannelRef" where
  "parse_channel_ref urlparse user_input =
     (case normalize_raw user_input of
        Inl e \<Rightarrow> Inl e
      | Inr r \<Rightarrow>
          if startswith r ''@'' then
            (let h = strip (drop 1 r)
             in case require_non_empty h ''Handle cannot be empty'' of
                  Inl e \<Rightarrow> Inl e
                | Inr _ \<Rightarrow>
                    (case reject_separators h ''Handle'' of
                       Inl e \<Rightarrow> Inl e
                     | Inr _ \<Rightarrow> Inr \<lparr>kind = Handle, ref_value = h, raw = r\<rparr>))
          else if looks_like_channel_id r then
            Inr \<lparr>kind = Channel_id, ref_value = r, raw = r\<rparr>
          else
            (case try_parse_youtube_url urlparse r of
               Inl e \<Rightarrow> Inl e
             | Inr (Some parsed) \<Rightarrow> Inr parsed
             | Inr None \<Rightarrow> Inr \<lparr>kind = Query, ref_value = r, raw = r\<rparr>))"

section \<open>quota_budgeter\<close>

definition DEFAULT_MAX_VIDEOS :: int where "DEFAULT_MAX_VIDEOS = 200"
definition DEFAULT_MAX_PAGES :: int where "DEFAULT_MAX_PAGES = 10"
definition DEFAULT_VIDEOS_LIST_BATCH :: int where "DEFAULT_VIDEOS_LIST_BATCH = 50"
definition QUOTA_COST_READ :: int where "QUOTA_COST_READ = 1"
definition QUOTA_COST_SEARCH :: int where "QUOTA_COST_SEARCH = 100"

record QuotaBudget =
  max_videos :: int
  max_pages :: int
  max_quota_units :: int

record QuotaEstimate =
  estimated_units :: int
  strategy :: string
  est_notes :: "string list"

definition estimate_channel_videos_quota ::
  "string \<Rightarrow> int \<Rightarrow> QuotaBudget \<Rightarrow> bool \<Rightarrow> error + QuotaEstimate" where
  "estimate_channel_videos_quota strategy' requested_max_videos budget include_video_details =
     (if requested_max_videos \<le> 0 then Inl (ValueError ''requested_max_videos must be positive'')
      else
        let max_videos' = min requested_max_videos (max_videos budget);
            pages = min ((max_videos' + 49) div 50) (max_pages budget);
            notes0 = (if requested_max_videos > max_videos budget
                      then [''requested_max_videos truncated to budget.max_videos''] else []);
            notes1 = notes0 @ (if pages < (max_videos' + 49) div 50
                               then [''pages truncated to budget.max_pages''] else [])
        in if strategy' = ''uploads_playlist'' \<or> strategy' = ''local_sort'' then
             let units = pages * QUOTA_COST_READ
                   + (if include_video_details
                      then ((max_videos' + (DEFAULT_VIDEOS_LIST_BATCH - 1))
                              div DEFAULT_VIDEOS_LIST_BATCH) * QUOTA_COST_READ
                      else 0)
             in if units > max_quota_units budget
                then Inl (QuotaBudgetExceeded units (max_quota_units budget))
                else Inr \<lparr>estimated_units = units, strategy = strategy', est_notes = notes1\<rparr>
           else if strategy' = ''search_api'' then
             let capped_videos = min max_videos' 500;
                 notes2 = notes1 @ (if capped_videos < max_videos'
                                    then [''search_api is capped to 500 videos by API behavior'']
                                    else []);
                 pages' = min ((capped_videos + 49) div 50) (max_pages budget);
                 units = pages' * QUOTA_COST_SEARCH
                   + (if include_video_details
                      then ((capped_videos + (DEFAULT_VIDEOS_LIST_BATCH - 1))
                              div DEFAULT_VIDEOS_LIST_BATCH) * QUOTA_COST_READ
                      else 0)
             in if units > max_quota_units budget
                then Inl (QuotaBudgetExceeded units (max_quota_units budget))
                else Inr \<lparr>estimated_units = units, strategy = strategy', est_notes = notes2\<rparr>
           else Inl (ValueError ''Unknown strategy''))"

section \<open>video_classification and video_sorting\<close>

definition is_digit :: "char \<Rightarrow> bool" where
  "is_digit c = (48 \<le> (of_char c :: nat) \<and> (of_char c :: nat) \<le> 57)"

definition digits_to_int :: "string \<Rightarrow> int" where
  "digits_to_int ds = foldl (\<lambda>a c. 10 * a + int (of_char c - 48)) 0 ds"

text \<open>
  One optional group \<open>(?:(\d+)H)?\<close> of the duration pattern: a maximal run of digits
  followed by the marker is consumed, anything else leaves the input where it is and the
  group unset (read as 0 by \<open>int(m.group(..) or 0)\<close>).
\<close>

definition opt_group :: "char \<Rightarrow> string \<Rightarrow> int \<times> string" where
  "opt_group marker s =
     (let ds = takeWhile is_digit s
      in case dropWhile is_digit s of
           [] \<Rightarrow> (0, s)
         | c # rest \<Rightarrow> if ds \<noteq> [] \<and> c = marker then (digits_to_int ds, rest) else (0, s))"

text \<open>
  The pattern is \<open>^PT(?:(\d+)H)?(?:(\d+)M)?(?:(\d+)S)?$\<close>; \<open>$\<close> also matches before a
  final newline.
\<close>

definition parse_duration_seconds :: "string \<Rightarrow> int option" where
  "parse_duration_seconds duration =
     (if startswith duration ''PT'' then
        (case opt_group CHR ''H'' (drop 2 duration) of
           (h, s1) \<Rightarrow>
             (case opt_group CHR ''M'' s1 of
                (mi, s2) \<Rightarrow>
                  (case opt_group CHR ''S'' s2 of
                     (s, s3) \<Rightarrow>
                       if s3 = [] \<or> s3 = [CHR 0x0A] then
                         (if h < 0 \<or> mi < 0 \<or> s < 0 then None
                          else Some (h * 3600 + mi * 60 + s))
                       else None)))
      else None)"

text \<open>A value without \<open>.get\<close> (anything but a dictionary) raises \<open>AttributeError\<close>.\<close>

definition is_short :: "json \<Rightarrow> error + bool" where
  "is_short video =
     (case video of
        JDict v \<Rightarrow>
          (case dict_get v ''contentDetails'' of
             JDict cd \<Rightarrow>
               (case dict_get cd ''duration'' of
                  JStr duration \<Rightarrow>
                    (case parse_duration_seconds duration of
                       None \<Rightarrow> Inr False
                     | Some seconds \<Rightarrow> Inr (seconds \<le> 60))
                | _ \<Rightarrow> Inr False)
           | _ \<Rightarrow> Inr False)
      | _ \<Rightarrow> Inl AttributeError)"

definition is_live :: "json \<Rightarrow> error + bool" where
  "is_live video =
     (case video of
        JDict v \<Rightarrow>
          (case dict_get v ''snippet'' of
             JDict snippet \<Rightarrow>
               (case dict_get snippet ''liveBroadcastContent'' of
                  JStr live \<Rightarrow> Inr (live = ''live'' \<or> live = ''upcoming'')
                | _ \<Rightarrow> Inr False)
           | _ \<Rightarrow> Inr False)
      | _ \<Rightarrow> Inl AttributeError)"

fun filter_videos :: "json list \<Rightarrow> bool \<Rightarrow> bool \<Rightarrow> error + json list" where
  "filter_videos [] include_shorts include_live = Inr []"
| "filter_videos (v # vs) include_shorts include_live =
     (case (if include_shorts then Inr False else is_short v) of
        Inl e \<Rightarrow> Inl e
      | Inr True \<Rightarrow> filter_videos vs include_shorts include_live
      | Inr False \<Rightarrow>
          (case (if include_live then Inr False else is_live v) of
             Inl e \<Rightarrow> Inl e
           | Inr True \<Rightarrow> filter_videos vs include_shorts include_live
           | Inr False \<Rightarrow>
               (case filter_videos vs include_shorts include_live of
                  Inl e \<Rightarrow> Inl e
                | Inr out \<Rightarrow> Inr (v # out))))"

definition truthy :: "json \<Rightarrow> bool" where
  "truthy v =
     (case v of
        JNull \<Rightarrow> False
      | JBool b \<Rightarrow> b
      | JInt i \<Rightarrow> i \<noteq> 0
      | JStr s \<Rightarrow> s \<noteq> []
      | JList l \<Rightarrow> l \<noteq> []
      | JDict d \<Rightarrow> d \<noteq> [])"

text \<open>
  The builtin \<open>int\<close>: its reading of a string is the interpreter's and is a parameter
  (\<open>None\<close> where it raises \<open>ValueError\<close>).
\<close>

type_synonym int_of_str_fn = "string \<Rightarrow> int option"

definition py_int :: "int_of_str_fn \<Rightarrow> json \<Rightarrow> error + int" where
  "py_int int_of_str v =
     (case v of
        JInt i \<Rightarrow> Inr i
      | JBool b \<Rightarrow> Inr (if b then 1 else 0)
      | JStr s \<Rightarrow> (case int_of_str s of None \<Rightarrow> Inl (ValueError ''int'') | Some i \<Rightarrow> Inr i)
      | _ \<Rightarrow> Inl TypeError)"

definition stat_int :: "int_of_str_fn \<Rightarrow> pydict \<Rightarrow> string \<Rightarrow> error + int" where
  "stat_int int_of_str stats k =
     (let v = (case map_of stats k of None \<Rightarrow> JInt 0 | Some x \<Rightarrow> x)
      in py_int int_of_str (if truthy v then v else JInt 0))"

definition sort_key_v :: "int_of_str_fn \<Rightarrow> json \<Rightarrow> string \<Rightarrow> error + int" where
  "sort_key_v int_of_str video order_by =
     (case video of
        JDict v \<Rightarrow>
          (let stats = (case dict_get v ''statistics'' of JDict d \<Rightarrow> d | _ \<Rightarrow> [])
           in if order_by = ''viewCount'' then stat_int int_of_str stats ''viewCount''
              else if order_by = ''likeCount'' then stat_int int_of_str stats ''likeCount''
              else if order_by = ''commentCount'' then stat_int int_of_str stats ''commentCount''
              else if order_by = ''duration'' then
                (let cd = (case dict_get v ''contentDetails'' of JDict d \<Rightarrow> d | _ \<Rightarrow> [])
                 in case dict_get cd ''duration'' of
                      JStr dur \<Rightarrow>
                        Inr (case parse_duration_seconds dur of
                               None \<Rightarrow> 0
                             | Some n \<Rightarrow> if n \<noteq> 0 then n else 0)
                    | _ \<Rightarrow> Inr 0)
              else Inr 0)
      | _ \<Rightarrow> Inl AttributeError)"

text \<open>
  \<open>sorted(xs, key=f, reverse=True)\<close>: the keys are computed once, in order (the first
  failure is raised); the sort is stable, equal keys keep their order.
\<close>

fun with_keys :: "int_of_str_fn \<Rightarrow> string \<Rightarrow> json list \<Rightarrow> error + (int \<times> json) list" where
  "with_keys int_of_str order_by [] = Inr []"
| "with_keys int_of_str order_by (v # vs) =
     (case sort_key_v int_of_str v order_by of
        Inl e \<Rightarrow> Inl e
      | Inr k \<Rightarrow>
          (case with_keys int_of_str order_by vs of
             Inl e \<Rightarrow> Inl e
           | Inr kvs \<Rightarrow> Inr ((k, v) # kvs)))"

definition sorted_reverse :: "(int \<times> json) list \<Rightarrow> json list" where
  "sorted_reverse kvs = map snd (rev (sort_key fst (rev kvs)))"

section \<open>playlist_items_extract\<close>

definition playlist_video_id :: "json \<Rightarrow> string option" where
  "playlist_video_id it =
     (case it of
        JDict d \<Rightarrow>
          (case dict_get d ''snippet'' of
             JDict snippet \<Rightarrow>
               (case dict_get snippet ''resourceId'' of
                  JDict resource \<Rightarrow>
                    (case dict_get resource ''videoId'' of
                       JStr vid \<Rightarrow> if vid = [] then None else Some vid
                     | _ \<Rightarrow> None)
                | _ \<Rightarrow> None)
           | _ \<Rightarrow> None)
      | _ \<Rightarrow> None)"

text \<open>The loop of \<open>extract_video_ids\<close>, with its two variables \<open>out\<close> and \<open>seen\<close>.\<close>

fun extract_loop :: "json list \<Rightarrow> int option \<Rightarrow> string list \<Rightarrow> string set \<Rightarrow> string list" where
  "extract_loop [] limit out seen = out"
| "extract_loop (it # its) limit out seen =
     (if (case limit of None \<Rightarrow> False | Some l \<Rightarrow> l \<le> int (length out)) then out
      else
        (case playlist_video_id it of
           None \<Rightarrow> extract_loop its limit out seen
         | Some vid \<Rightarrow>
             if vid \<in> seen then extract_loop its limit out seen
             else extract_loop its limit (out @ [vid]) (insert vid seen)))"

definition extract_video_ids :: "json \<Rightarrow> int option \<Rightarrow> string list" where
  "extract_video_ids items' limit =
     (case items' of JList its \<Rightarrow> extract_loop its limit [] {} | _ \<Rightarrow> [])"

section \<open>The backend client\<close>

text \<open>
  The client is an injected capability. Each operation takes the field selector and the
  parameters, reads and changes the client's own state, and returns a decoded response or
  raises. Every invocation is appended to a log, which is what the pipelines do to the
  world besides the client's state.
\<close>

datatype op_name = ChannelsList | SearchList | PlaylistItemsList | VideosList

datatype call = Call op_name string pydict

type_synonym 's client_op = "string \<Rightarrow> pydict \<Rightarrow> 's \<Rightarrow> (error + pydict) \<times> 's"

record 's client =
  channels_list :: "'s client_op"
  search_list :: "'s client_op"
  playlist_items_list :: "'s client_op"
  videos_list :: "'s client_op"

type_synonym 's world = "'s \<times> call list"

definition invoke ::
  "'s client_op \<Rightarrow> op_name \<Rightarrow> string \<Rightarrow> pydict \<Rightarrow> 's world \<Rightarrow> (error + pydict) \<times> 's world" where
  "invoke f nm part params w =
     (case f part params (fst w) of (r, s') \<Rightarrow> (r, (s', snd w @ [Call nm part params])))"

definition str_or_none :: "json \<Rightarrow> string option" where
  "str_or_none v = (case v of JStr s \<Rightarrow> if s \<noteq> [] then Some s else None | _ \<Rightarrow> None)"

definition page_token_param :: "string option \<Rightarrow> pydict" where
  "page_token_param page_token =
     (case page_token of
        Some t \<Rightarrow> if t \<noteq> [] then [(''pageToken'', JStr t)] else []
      | None \<Rightarrow> [])"

definition videos_part :: "string \<Rightarrow> string" where
  "videos_part parts_level =
     (if parts_level = ''basic'' then ''snippet,statistics,contentDetails''
      else ''snippet,statistics,contentDetails,liveStreamingDetails,status'')"

section \<open>channel_resolver\<close>

record ChannelCandidate =
  cand_channel_id :: string
  cand_title :: "string option"
  cand_handle :: "string option"

text \<open>
  \<open>channel_id\<close> is declared a string, but \<open>_get_str\<close> gives \<open>None\<close> for a result without
  a usable id, so the field is optional here.
\<close>

record ResolvedChannel =
  channel_id :: "string option"
  title :: "string option"
  handle :: "string option"
  uploads_playlist_id :: "string option"
  warnings :: "string list"
  candidates :: "ChannelCandidate list"

definition get_str :: "json \<Rightarrow> string \<Rightarrow> string option" where
  "get_str obj key = (case obj of JDict d \<Rightarrow> str_or_none (dict_get d key) | _ \<Rightarrow> None)"

definition extract_uploads_playlist_id :: "json \<Rightarrow> string option" where
  "extract_uploads_playlist_id item =
     (case item of
        JDict d \<Rightarrow>
          (case dict_get d ''contentDetails'' of
             JDict content \<Rightarrow>
               (case dict_get content ''relatedPlaylists'' of
                  JDict related \<Rightarrow> str_or_none (dict_get related ''uploads'')
                | _ \<Rightarrow> None)
           | _ \<Rightarrow> None)
      | _ \<Rightarrow> None)"

definition opt_json :: "string option \<Rightarrow> json" where
  "opt_json v = (case v of None \<Rightarrow> JNull | Some s \<Rightarrow> JStr s)"

definition resolve_channels_list ::
  "'s client \<Rightarrow> pydict \<Rightarrow> bool \<Rightarrow> 's world \<Rightarrow> (error + ResolvedChannel) \<times> 's world" where
  "resolve_channels_list client filter_params include_uploads_playlist w =
     (let part = join '','' ([''snippet'', ''id'']
                   @ (if include_uploads_playlist then [''contentDetails''] else []))
      in case invoke (channels_list client) ChannelsList part filter_params w of
           (Inl e, w') \<Rightarrow> (Inl e, w')
         | (Inr data, w') \<Rightarrow>
             (case dict_get data ''items'' of
                JList (item # rest) \<Rightarrow>
                  if rest \<noteq> [] then
                    (Inl (ChannelResolutionError ''Multiple channels matched unexpectedly''), w')
                  else
                    (let snippet = (case item of JDict d \<Rightarrow> dict_get d ''snippet'' | _ \<Rightarrow> JNull);
                         uploads = (if include_uploads_playlist
                                    then extract_uploads_playlist_id item else None)
                     in (Inr \<lparr>channel_id = get_str item ''id'',
                              title = (case snippet of JDict _ \<Rightarrow> get_str snippet ''title''
                                       | _ \<Rightarrow> None),
                              handle = (case snippet of JDict _ \<Rightarrow> get_str snippet ''customUrl''
                                        | _ \<Rightarrow> None),
                              uploads_playlist_id = uploads,
                              warnings = (if include_uploads_playlist \<and> uploads = None
                                          then [''uploadsPlaylistId not available''] else []),
                              candidates = []\<rparr>, w'))
              | _ \<Rightarrow> (Inl (ChannelResolutionError ''Channel not found''), w')))"

definition candidate_of :: "json \<Rightarrow> ChannelCandidate option" where
  "candidate_of item =
     (case item of
        JDict d \<Rightarrow>
          (case dict_get d ''id'' of
             JDict id_block \<Rightarrow>
               (case dict_get id_block ''channelId'' of
                  JStr cid \<Rightarrow>
                    if cid = [] then None
                    else
                      (let snippet = dict_get d ''snippet''
                       in Some \<lparr>cand_channel_id = cid,
                                cand_title = (case snippet of JDict _ \<Rightarrow> get_str snippet ''title''
                                              | _ \<Rightarrow> None),
                                cand_handle = (case snippet of
                                                 JDict _ \<Rightarrow> get_str snippet ''channelTitle''
                                               | _ \<Rightarrow> None)\<rparr>)
                | _ \<Rightarrow> None)
           | _ \<Rightarrow> None)
      | _ \<Rightarrow> None)"

fun build_candidates :: "json list \<Rightarrow> ChannelCandidate list" where
  "build_candidates [] = []"
| "build_candidates (item # rest) =
     (case candidate_of item of
        None \<Rightarrow> build_candidates rest
      | Some c \<Rightarrow> c # build_candidates rest)"

definition resolve_best_effort_query ::
  "'s client \<Rightarrow> string \<Rightarrow> bool \<Rightarrow> 's world \<Rightarrow> (error + ResolvedChannel) \<times> 's world" where
  "resolve_best_effort_query client q include_uploads_playlist w =
     (if strip q = [] then (Inl (ChannelResolutionError ''Query cannot be empty''), w)
      else
        case invoke (search_list client) SearchList ''snippet''
               [(''q'', JStr q), (''type'', JStr ''channel''), (''maxResults'', JStr ''5'')] w of
          (Inl e, w') \<Rightarrow> (Inl e, w')
        | (Inr data, w') \<Rightarrow>
            (case dict_get data ''items'' of
               JList (item # rest) \<Rightarrow>
                 (Inr \<lparr>channel_id = Some [],
                       title = None,
                       handle = None,
                       uploads_playlist_id = None,
                       warnings = [''best_effort_candidates_only''],
                       candidates = build_candidates (item # rest)\<rparr>, w')
             | _ \<Rightarrow> (Inl (ChannelResolutionError ''No channel candidates found''), w')))"

definition MSG_CUSTOM_URL :: string where
  "MSG_CUSTOM_URL = ''Custom channel URLs (/c/...) cannot be resolved deterministically. ''
     @ ''Provide @handle or /channel/<id> or /user/<username>.''"

definition MSG_AMBIGUOUS :: string where
  "MSG_AMBIGUOUS = ''Ambiguous channel reference. Provide @handle, ''
     @ ''channel URL (/channel/UC...), or /user/<username>.''"

definition resolve_channel ::
  "urlparse_fn \<Rightarrow> 's client \<Rightarrow> string \<Rightarrow> string \<Rightarrow> bool \<Rightarrow> 's world
     \<Rightarrow> (error + ResolvedChannel) \<times> 's world" where
  "resolve_channel urlparse client channel_ref mode include_uploads_playlist w =
     (case parse_channel_ref urlparse channel_ref of
        Inl e \<Rightarrow> (Inl e, w)
      | Inr parsed \<Rightarrow>
          if kind parsed = Custom_url \<and> mode = ''strict'' then
            (Inl (ChannelResolutionError MSG_CUSTOM_URL), w)
          else
            (let ref = (if kind parsed = Custom_url
                        then \<lparr>kind = Query, ref_value = ref_value parsed, raw = raw parsed\<rparr>
                        else parsed)
             in if kind ref = Query then
                  (if mode = ''strict'' then (Inl (ChannelResolutionError MSG_AMBIGUOUS), w)
                   else resolve_best_effort_query client (ref_value ref)
                          include_uploads_playlist w)
                else if kind ref = Handle then
                  resolve_channels_list client [(''forHandle'', JStr (''@'' @ ref_value ref))]
                    include_uploads_playlist w
                else if kind ref = Channel_id then
                  resolve_channels_list client [(''id'', JStr (ref_value ref))]
                    include_uploads_playlist w
                else if kind ref = Username then
                  resolve_channels_list client [(''forUsername'', JStr (ref_value ref))]
                    include_uploads_playlist w
                else (Inl (ChannelResolutionError ''Unsupported channel ref kind''), w)))"

section \<open>The listing pipelines\<close>

record ChannelVideosPage =
  items :: "json list"
  next_page_token :: "string option"
  quota_estimate :: QuotaEstimate
  truncated :: bool
  applied_max_videos :: int

definition empty_page :: "QuotaEstimate \<Rightarrow> ChannelVideosPage" where
  "empty_page quota_est =
     \<lparr>items = [], next_page_token = None, quota_estimate = quota_est, truncated = False,
      applied_max_videos = 0\<rparr>"

definition json_list :: "json \<Rightarrow> json list" where
  "json_list v = (case v of JList l \<Rightarrow> l | _ \<Rightarrow> [])"

subsection \<open>channel_inventory: the uploads_playlist strategy\<close>

fun inventory_filter_videos :: "json list \<Rightarrow> bool \<Rightarrow> bool \<Rightarrow> error + json list" where
  "inventory_filter_videos [] include_shorts include_live = Inr []"
| "inventory_filter_videos (v # vs) include_shorts include_live =
     (case (if include_shorts then Inr False else is_short v) of
        Inl e \<Rightarrow> Inl e
      | Inr True \<Rightarrow> inventory_filter_videos vs include_shorts include_live
      | Inr False \<Rightarrow>
          (case (if include_live then Inr False else is_live v) of
             Inl e \<Rightarrow> Inl e
           | Inr True \<Rightarrow> inventory_filter_videos vs include_shorts include_live
           | Inr False \<Rightarrow>
               (case inventory_filter_videos vs include_shorts include_live of
                  Inl e \<Rightarrow> Inl e
                | Inr out \<Rightarrow> Inr (v # out))))"

definition list_channel_videos_page ::
  "urlparse_fn \<Rightarrow> 's client \<Rightarrow> string \<Rightarrow> int \<Rightarrow> string option \<Rightarrow> bool \<Rightarrow> bool \<Rightarrow> string
     \<Rightarrow> QuotaBudget \<Rightarrow> 's world \<Rightarrow> (error + ChannelVideosPage) \<times> 's world" where
  "list_channel_videos_page urlparse client channel_ref max_videos' page_token include_shorts
       include_live parts_level budget w =
     (case estimate_channel_videos_quota ''uploads_playlist'' max_videos' budget True of
        Inl e \<Rightarrow> (Inl e, w)
      | Inr quota_est \<Rightarrow>
          (case resolve_channel urlparse client channel_ref ''strict'' True w of
             (Inl e, w1) \<Rightarrow> (Inl e, w1)
           | (Inr resolved, w1) \<Rightarrow>
               (case uploads_playlist_id resolved of
                  None \<Rightarrow>
                    (Inl (ChannelInventoryError
                            ''uploadsPlaylistId not available for this channel''), w1)
                | Some uploads \<Rightarrow>
                    if uploads = [] then
                      (Inl (ChannelInventoryError
                              ''uploadsPlaylistId not available for this channel''), w1)
                    else
                      (case invoke (playlist_items_list client) PlaylistItemsList
                              ''snippet,contentDetails''
                              ([(''playlistId'', JStr uploads), (''maxResults'', JStr ''50'')]
                                 @ page_token_param page_token) w1 of
                         (Inl e, w2) \<Rightarrow> (Inl e, w2)
                       | (Inr playlist_resp, w2) \<Rightarrow>
                           (let extracted = extract_video_ids (dict_get playlist_resp ''items'') None;
                                cut = (max_videos' < int (length extracted));
                                video_ids = (if cut then py_take max_videos' extracted
                                             else extracted)
                            in if video_ids = [] then (Inr (empty_page quota_est), w2)
                               else
                                 (case invoke (videos_list client) VideosList
                                         (videos_part parts_level)
                                         [(''id'', JStr (join '','' video_ids))] w2 of
                                    (Inl e, w3) \<Rightarrow> (Inl e, w3)
                                  | (Inr videos_resp, w3) \<Rightarrow>
                                      (case inventory_filter_videos
                                              (json_list (dict_get videos_resp ''items''))
                                              include_shorts include_live of
                                         Inl e \<Rightarrow> (Inl e, w3)
                                       | Inr filtered \<Rightarrow>
                                           (Inr \<lparr>items = filtered,
                                                 next_page_token =
                                                   str_or_none
                                                     (dict_get playlist_resp ''nextPageToken''),
                                                 quota_estimate = quota_est,
                                                 truncated = cut,
                                                 applied_max_videos = int (length video_ids)\<rparr>,
                                            w3))))))))"

subsection \<open>channel_videos_ordering_local: the local_sort strategy\<close>

text \<open>
  The \<open>while\<close> loop that accumulates identifiers page by page. Its variables are \<open>ids\<close>,
  \<open>token\<close> and \<open>pages\<close>; it ends when enough identifiers are held, when the page budget
  is used up, or at the \<open>break\<close> on a missing continuation token.
\<close>

function fetch_ids ::
  "'s client \<Rightarrow> string \<Rightarrow> int \<Rightarrow> int \<Rightarrow> string list \<Rightarrow> string option \<Rightarrow> int \<Rightarrow> 's world
     \<Rightarrow> (error + string list \<times> string option) \<times> 's world" where
  "fetch_ids client uploads max_videos' max_pages' ids token pages w =
     (if int (length ids) < max_videos' \<and> pages < max_pages' then
        (case invoke (playlist_items_list client) PlaylistItemsList ''snippet,contentDetails''
                ([(''playlistId'', JStr uploads), (''maxResults'', JStr ''50'')]
                   @ page_token_param token) w of
           (Inl e, w') \<Rightarrow> (Inl e, w')
         | (Inr resp, w') \<Rightarrow>
             (let ids' = ids @ extract_video_ids (dict_get resp ''items'') None;
                  token' = str_or_none (dict_get resp ''nextPageToken'')
              in if token' = None then (Inr (ids', token'), w')
                 else fetch_ids client uploads max_videos' max_pages' ids' token' (pages + 1) w'))
      else (Inr (ids, token), w))"
  by pat_completeness auto
termination
  by (relation "measure (\<lambda>(client, uploads, mv, mp, ids, token, pages, w). nat (mp - pages))")
     auto

definition is_dict :: "json \<Rightarrow> bool" where
  "is_dict v = (case v of JDict _ \<Rightarrow> True | _ \<Rightarrow> False)"

text \<open>The \<open>for\<close> loop over \<open>range(0, len(ids), 50)\<close>: one detail call per chunk of 50.\<close>

function fetch_batches ::
  "'s client \<Rightarrow> string \<Rightarrow> string list \<Rightarrow> json list \<Rightarrow> 's world
     \<Rightarrow> (error + json list) \<times> 's world" where
  "fetch_batches client part ids videos w =
     (if ids = [] then (Inr videos, w)
      else
        (case invoke (videos_list client) VideosList part
                [(''id'', JStr (join '','' (take 50 ids)))] w of
           (Inl e, w') \<Rightarrow> (Inl e, w')
         | (Inr vresp, w') \<Rightarrow>
             fetch_batches client part (drop 50 ids)
               (videos @ (case dict_get vresp ''items'' of
                            JList l \<Rightarrow> filter is_dict l
                          | _ \<Rightarrow> [])) w'))"
  by pat_completeness auto
termination
  by (relation "measure (\<lambda>(client, part, ids, videos, w). length ids)") auto

definition list_channel_videos_local_sorted ::
  "urlparse_fn \<Rightarrow> int_of_str_fn \<Rightarrow> 's client \<Rightarrow> string \<Rightarrow> string \<Rightarrow> int \<Rightarrow> string option
     \<Rightarrow> bool \<Rightarrow> bool \<Rightarrow> string \<Rightarrow> QuotaBudget \<Rightarrow> 's world
     \<Rightarrow> (error + ChannelVideosPage) \<times> 's world" where
  "list_channel_videos_local_sorted urlparse int_of_str client channel_ref order_by max_videos'
       page_token include_shorts include_live parts_level budget w =
     (if page_token \<noteq> None \<and> page_token \<noteq> Some [] then
        (Inl (ValueError ''page_token is not supported for local_sort''), w)
      else
        case estimate_channel_videos_quota ''local_sort'' max_videos' budget True of
          Inl e \<Rightarrow> (Inl e, w)
        | Inr quota_est \<Rightarrow>
            (case resolve_channel urlparse client channel_ref ''strict'' True w of
               (Inl e, w1) \<Rightarrow> (Inl e, w1)
             | (Inr resolved, w1) \<Rightarrow>
                 (case uploads_playlist_id resolved of
                    None \<Rightarrow> (Inl (ValueError ''uploadsPlaylistId not available''), w1)
                  | Some uploads \<Rightarrow>
                      if uploads = [] then
                        (Inl (ValueError ''uploadsPlaylistId not available''), w1)
                      else
                        (case fetch_ids client uploads max_videos' (max_pages budget) [] None 0
                                w1 of
                           (Inl e, w2) \<Rightarrow> (Inl e, w2)
                         | (Inr (all_ids, token), w2) \<Rightarrow>
                             (let cut = (max_videos' < int (length all_ids) \<or> token \<noteq> None);
                                  ids = py_take max_videos' all_ids
                              in case fetch_batches client (videos_part parts_level) ids [] w2 of
                                   (Inl e, w3) \<Rightarrow> (Inl e, w3)
                                 | (Inr videos, w3) \<Rightarrow>
                                     (case filter_videos videos include_shorts include_live of
                                        Inl e \<Rightarrow> (Inl e, w3)
                                      | Inr filtered \<Rightarrow>
                                          (case with_keys int_of_str order_by filtered of
                                             Inl e \<Rightarrow> (Inl e, w3)
                                           | Inr keyed \<Rightarrow>
                                               (Inr \<lparr>items = sorted_reverse keyed,
                                                     next_page_token = None,
                                                     quota_estimate = quota_est,
                                                     truncated = cut,
                                                     applied_max_videos = int (length ids)\<rparr>,
                                                w3))))))))"

subsection \<open>channel_videos_ordering_search: the search_api strategy\<close>

definition search_video_id :: "json \<Rightarrow> string option" where
  "search_video_id it =
     (case it of
        JDict d \<Rightarrow>
          (case dict_get d ''id'' of
             JDict id_block \<Rightarrow> str_or_none (dict_get id_block ''videoId'')
           | _ \<Rightarrow> None)
      | _ \<Rightarrow> None)"

fun search_loop :: "json list \<Rightarrow> int \<Rightarrow> string list \<Rightarrow> string list" where
  "search_loop [] limit out = out"
| "search_loop (it # its) limit out =
     (if limit \<le> int (length out) then out
      else
        (case search_video_id it of
           None \<Rightarrow> search_loop its limit out
         | Some vid \<Rightarrow> search_loop its limit (out @ [vid])))"

definition extract_search_video_ids :: "json \<Rightarrow> int \<Rightarrow> string list" where
  "extract_search_video_ids items' limit =
     (case items' of JList its \<Rightarrow> search_loop its limit [] | _ \<Rightarrow> [])"

definition list_channel_videos_search_api ::
  "urlparse_fn \<Rightarrow> 's client \<Rightarrow> string \<Rightarrow> string \<Rightarrow> int \<Rightarrow> string option \<Rightarrow> bool \<Rightarrow> bool
     \<Rightarrow> string \<Rightarrow> QuotaBudget \<Rightarrow> 's world \<Rightarrow> (error + ChannelVideosPage) \<times> 's world" where
  "list_channel_videos_search_api urlparse client channel_ref order_by max_videos' page_token
       include_shorts include_live parts_level budget w =
     (if order_by \<notin> {''date'', ''viewCount''} then
        (Inl (ValueError ''search_api supports only order_by in {'date','viewCount'}''), w)
      else
        case estimate_channel_videos_quota ''search_api'' max_videos' budget True of
          Inl e \<Rightarrow> (Inl e, w)
        | Inr quota_est \<Rightarrow>
            (case resolve_channel urlparse client channel_ref ''strict'' False w of
               (Inl e, w1) \<Rightarrow> (Inl e, w1)
             | (Inr resolved, w1) \<Rightarrow>
                 (case invoke (search_list client) SearchList ''snippet''
                         ([(''channelId'', opt_json (channel_id resolved)),
                           (''type'', JStr ''video''),
                           (''order'', JStr order_by),
                           (''maxResults'', JStr ''50'')] @ page_token_param page_token) w1 of
                    (Inl e, w2) \<Rightarrow> (Inl e, w2)
                  | (Inr resp, w2) \<Rightarrow>
                      (let ids = extract_search_video_ids (dict_get resp ''items'') max_videos'
                       in if ids = [] then (Inr (empty_page quota_est), w2)
                          else
                            (case invoke (videos_list client) VideosList
                                    (videos_part parts_level)
                                    [(''id'', JStr (join '','' ids))] w2 of
                               (Inl e, w3) \<Rightarrow> (Inl e, w3)
                             | (Inr videos_resp, w3) \<Rightarrow>
                                 (case filter_videos (json_list (dict_get videos_resp ''items''))
                                         include_shorts include_live of
                                    Inl e \<Rightarrow> (Inl e, w3)
                                  | Inr filtered \<Rightarrow>
                                      (Inr \<lparr>items = filtered,
                                            next_page_token =
                                              str_or_none (dict_get resp ''nextPageToken''),
                                            quota_estimate = quota_est,
                                            truncated = False,
                                            applied_max_videos = int (length ids)\<rparr>,
                                       w3)))))))"

subsection \<open>channel_search: keyword search within a channel\<close>

text \<open>
  The module has its own copy of \<open>_extract_search_video_ids\<close>, the same as the one of the
  search_api strategy; \<open>extract_search_video_ids\<close> stands for both.
\<close>

definition search_channel_videos_page ::
  "urlparse_fn \<Rightarrow> 's client \<Rightarrow> string \<Rightarrow> string \<Rightarrow> string option \<Rightarrow> int \<Rightarrow> bool \<Rightarrow> bool
     \<Rightarrow> string \<Rightarrow> string \<Rightarrow> QuotaBudget \<Rightarrow> 's world
     \<Rightarrow> (error + ChannelVideosPage) \<times> 's world" where
  "search_channel_videos_page urlparse client channel_ref q page_token max_videos'
       include_shorts include_live parts_level order budget w =
     (if q = [] \<or> strip q = [] then (Inl (ValueError ''query is required''), w)
      else
        case estimate_channel_videos_quota ''search_api'' max_videos' budget True of
          Inl e \<Rightarrow> (Inl e, w)
        | Inr quota_est \<Rightarrow>
            (case resolve_channel urlparse client channel_ref ''strict'' False w of
               (Inl e, w1) \<Rightarrow> (Inl e, w1)
             | (Inr resolved, w1) \<Rightarrow>
                 (case invoke (search_list client) SearchList ''snippet''
                         ([(''channelId'', opt_json (channel_id resolved)),
                           (''type'', JStr ''video''),
                           (''q'', JStr q),
                           (''order'', JStr order),
                           (''maxResults'', JStr ''50'')] @ page_token_param page_token) w1 of
                    (Inl e, w2) \<Rightarrow> (Inl e, w2)
                  | (Inr resp, w2) \<Rightarrow>
                      (let ids = extract_search_video_ids (dict_get resp ''items'') max_videos'
                       in if ids = [] then (Inr (empty_page quota_est), w2)
                          else
                            (case invoke (videos_list client) VideosList
                                    (videos_part parts_level)
                                    [(''id'', JStr (join '','' ids))] w2 of
                               (Inl e, w3) \<Rightarrow> (Inl e, w3)
                             | (Inr videos_resp, w3) \<Rightarrow>
                                 (case filter_videos (json_list (dict_get videos_resp ''items''))
                                         include_shorts include_live of
                                    Inl e \<Rightarrow> (Inl e, w3)
                                  | Inr filtered \<Rightarrow>
                                      (Inr \<lparr>items = filtered,
                                            next_page_token =
                                              str_or_none (dict_get resp ''nextPageToken''),
                                            quota_estimate = quota_est,
                                            truncated = False,
                                            applied_max_videos = int (length ids)\<rparr>,
                                       w3)))))))"

subsection \<open>channel_videos_ordering: the dispatcher\<close>

definition list_channel_videos ::
  "urlparse_fn \<Rightarrow> int_of_str_fn \<Rightarrow> 's client \<Rightarrow> string \<Rightarrow> string \<Rightarrow> string \<Rightarrow> int
     \<Rightarrow> string option \<Rightarrow> bool \<Rightarrow> bool \<Rightarrow> string \<Rightarrow> QuotaBudget \<Rightarrow> 's world
     \<Rightarrow> (error + ChannelVideosPage) \<times> 's world" where
  "list_channel_videos urlparse int_of_str client channel_ref strategy' order_by max_videos'
       page_token include_shorts include_live parts_level budget w =
     (if strategy' = ''uploads_playlist'' then
        list_channel_videos_page urlparse client channel_ref max_videos' page_token
          include_shorts include_live parts_level budget w
      else if strategy' = ''local_sort'' then
        list_channel_videos_local_sorted urlparse int_of_str client channel_ref order_by
          max_videos' page_token include_shorts include_live parts_level budget w
      else if strategy' = ''search_api'' then
        list_channel_videos_search_api urlparse client channel_ref order_by max_videos'
          page_token include_shorts include_live parts_level budget w
      else (Inl (ValueError (''Unknown strategy: '' @ strategy')), w))"

section \<open>Auxiliary definitions\<close>

text \<open>
  The number of pages of 50 entries that hold \<open>n\<close> identifiers: the expression
  \<open>(n + 49) // 50\<close> of the budgeter, named so that the proofs can treat it as one quantity.
\<close>
definition pages_for :: "int \<Rightarrow> int" where
  "pages_for n = (n + 49) div 50"

text \<open>The detail-fetch calls recorded in a call log.\<close>
definition videos_list_calls :: "call list \<Rightarrow> call list" where
  "videos_list_calls log = filter (\<lambda>c. case c of Call nm part params \<Rightarrow> nm = VideosList) log"

subsection \<open>Test doubles\<close>

text \<open>
  The concrete inputs of the examples. \<open>urlparse_plain\<close> is \<open>urlparse\<close> on a string
  without a scheme and without \<open>//\<close> (everything is the path); \<open>urlparse_user_url\<close> is its
  result on \<open>https://www.youtube.com/user/Bob\<close>. \<open>fake_client\<close> follows the fake clients of
  the unit tests: every operation answers with a fixed response and keeps no state.
\<close>
definition urlparse_plain :: urlparse_fn where
  "urlparse_plain s = Some \<lparr>scheme = [], netloc = [], path = s\<rparr>"

definition urlparse_user_url :: urlparse_fn where
  "urlparse_user_url s =
     Some \<lparr>scheme = ''https'', netloc = ''www.youtube.com'', path = ''/user/Bob''\<rparr>"

definition int_of_str_none :: int_of_str_fn where
  "int_of_str_none s = None"

definition budget_200_10_1000 :: QuotaBudget where
  "budget_200_10_1000 = \<lparr>max_videos = 200, max_pages = 10, max_quota_units = 1000\<rparr>"

definition fake_client :: "pydict \<Rightarrow> pydict \<Rightarrow> pydict \<Rightarrow> pydict \<Rightarrow> unit client" where
  "fake_client channels_resp search_resp playlist_resp videos_resp =
     \<lparr>channels_list = (\<lambda>part params s. (Inr channels_resp, s)),
      search_list = (\<lambda>part params s. (Inr search_resp, s)),
      playlist_items_list = (\<lambda>part params s. (Inr playlist_resp, s)),
      videos_list = (\<lambda>part params s. (Inr videos_resp, s))\<rparr>"

definition channel_item :: json where
  "channel_item =
     JDict [(''id'', JStr ''UC_x''),
            (''snippet'', JDict [(''title'', JStr ''T''), (''customUrl'', JStr ''@Handle'')]),
            (''contentDetails'',
               JDict [(''relatedPlaylists'', JDict [(''uploads'', JStr ''UU_x'')])])]"

definition playlist_item :: "string \<Rightarrow> json" where
  "playlist_item vid =
     JDict [(''snippet'', JDict [(''resourceId'', JDict [(''videoId'', JStr vid)])])]"

definition video_item :: "string \<Rightarrow> json" where
  "video_item vid =
     JDict [(''id'', JStr vid),
            (''snippet'', JDict [(''liveBroadcastContent'', JStr ''none'')]),
            (''contentDetails'', JDict [(''duration'', JStr ''PT5M'')]),
            (''statistics'', JDict [(''viewCount'', JStr ''1'')])]"

definition search_video_item :: "string \<Rightarrow> json" where
  "search_video_item vid = JDict [(''id'', JDict [(''videoId'', JStr vid)])]"


definition resolved_x :: ResolvedChannel where
  "resolved_x =
     \<lparr>channel_id = Some ''UC_x'', title = Some ''T'', handle = Some ''@Handle'',
      uploads_playlist_id = Some ''UU_x'', warnings = [], candidates = []\<rparr>"

definition inventory_client :: "json list \<Rightarrow> unit client" where
  "inventory_client playlist_entries =
     fake_client [(''items'', JList [channel_item])] []
       [(''items'', JList playlist_entries), (''nextPageToken'', JStr ''NEXT'')]
       [(''items'', JList [video_item ''v1'', video_item ''v2''])]"


definition search_client :: "json list \<Rightarrow> unit client" where
  "search_client search_items =
     fake_client [(''items'', JList [channel_item])]
       [(''items'', JList search_items), (''nextPageToken'', JStr ''NEXT'')] []
       [(''items'', JList [video_item ''v1'', video_item ''v2''])]"

section \<open>Properties of the quota budgeter\<close>

lemma pages_for_mono: "x \<le> y \<Longrightarrow> pages_for x \<le> pages_for y"
  unfolding pages_for_def by (rule zdiv_mono1) simp_all

text \<open>The estimator, with the page counts folded into \<open>pages_for\<close>.\<close>
lemma estimate_pages:
  "estimate_channel_videos_quota s r b d =
     (if r \<le> 0 then Inl (ValueError ''requested_max_videos must be positive'')
      else if s = ''uploads_playlist'' \<or> s = ''local_sort'' then
        (if max_quota_units b
              < min (pages_for (min r (max_videos b))) (max_pages b)
                + (if d then pages_for (min r (max_videos b)) else 0)
         then Inl (QuotaBudgetExceeded
                    (min (pages_for (min r (max_videos b))) (max_pages b)
                       + (if d then pages_for (min r (max_videos b)) else 0))
                    (max_quota_units b))
         else Inr \<lparr>estimated_units =
                     min (pages_for (min r (max_videos b))) (max_pages b)
                       + (if d then pages_for (min r (max_videos b)) else 0),
                   strategy = s,
                   est_notes =
                     (if max_videos b < r
                      then [''requested_max_videos truncated to budget.max_videos''] else [])
                     @ (if min (pages_for (min r (max_videos b))) (max_pages b)
                             < pages_for (min r (max_videos b))
                        then [''pages truncated to budget.max_pages''] else [])\<rparr>)
      else if s = ''search_api'' then
        (if max_quota_units b
              < min (pages_for (min (min r (max_videos b)) 500)) (max_pages b) * 100
                + (if d then pages_for (min (min r (max_videos b)) 500) else 0)
         then Inl (QuotaBudgetExceeded
                    (min (pages_for (min (min r (max_videos b)) 500)) (max_pages b) * 100
                       + (if d then pages_for (min (min r (max_videos b)) 500) else 0))
                    (max_quota_units b))
         else Inr \<lparr>estimated_units =
                     min (pages_for (min (min r (max_videos b)) 500)) (max_pages b) * 100
                       + (if d then pages_for (min (min r (max_videos b)) 500) else 0),
                   strategy = s,
                   est_notes =
                     (if max_videos b < r
                      then [''requested_max_videos truncated to budget.max_videos''] else [])
                     @ (if min (pages_for (min r (max_videos b))) (max_pages b)
                             < pages_for (min r (max_videos b))
                        then [''pages truncated to budget.max_pages''] else [])
                     @ (if min (min r (max_videos b)) 500 < min r (max_videos b)
                        then [''search_api is capped to 500 videos by API behavior'']
                        else [])\<rparr>)
      else Inl (ValueError ''Unknown strategy''))"
  unfolding estimate_channel_videos_quota_def pages_for_def Let_def QUOTA_COST_READ_def
    QUOTA_COST_SEARCH_def DEFAULT_VIDEOS_LIST_BATCH_def
  by (simp split del: if_split cong: if_cong)

lemma estimate_units_read:
  assumes "estimate_channel_videos_quota s r b d = Inr e"
      and "s = ''uploads_playlist'' \<or> s = ''local_sort''"
  shows "estimated_units e =
           min (pages_for (min r (max_videos b))) (max_pages b)
             + (if d then pages_for (min r (max_videos b)) else 0)"
proof -
  have "\<not> r \<le> 0"
    using assms(1) by (auto simp add: estimate_pages)
  with assms show ?thesis
    by (simp only: estimate_pages if_True if_False split: if_splits) auto
qed

lemma estimate_units_search:
  assumes "estimate_channel_videos_quota ''search_api'' r b d = Inr e"
  shows "estimated_units e =
           min (pages_for (min (min r (max_videos b)) 500)) (max_pages b) * 100
             + (if d then pages_for (min (min r (max_videos b)) 500) else 0)"
    and "est_notes e =
           (if max_videos b < r
            then [''requested_max_videos truncated to budget.max_videos''] else [])
           @ (if min (pages_for (min r (max_videos b))) (max_pages b)
                   < pages_for (min r (max_videos b))
              then [''pages truncated to budget.max_pages''] else [])
           @ (if min (min r (max_videos b)) 500 < min r (max_videos b)
              then [''search_api is capped to 500 videos by API behavior''] else [])"
proof -
  have ne: "\<not> (''search_api'' = ''uploads_playlist'' \<or> ''search_api'' = ''local_sort'')"
    by simp
  have pos: "\<not> r \<le> 0"
    using assms by (auto simp add: estimate_pages)
  from assms show "estimated_units e =
           min (pages_for (min (min r (max_videos b)) 500)) (max_pages b) * 100
             + (if d then pages_for (min (min r (max_videos b)) 500) else 0)"
    unfolding estimate_pages using ne pos
    by (simp only: if_False if_True refl split: if_splits) auto
  from assms show "est_notes e =
           (if max_videos b < r
            then [''requested_max_videos truncated to budget.max_videos''] else [])
           @ (if min (pages_for (min r (max_videos b))) (max_pages b)
                   < pages_for (min r (max_videos b))
              then [''pages truncated to budget.max_pages''] else [])
           @ (if min (min r (max_videos b)) 500 < min r (max_videos b)
              then [''search_api is capped to 500 videos by API behavior''] else [])"
    unfolding estimate_pages using ne pos
    by (simp only: if_False if_True refl split: if_splits) auto
qed

lemma estimate_strategy_known:
  assumes "estimate_channel_videos_quota s r b d = Inr e"
  shows "s = ''uploads_playlist'' \<or> s = ''local_sort'' \<or> s = ''search_api''"
  using assms by (simp only: estimate_pages split: if_splits) auto




text \<open>
  Claim C5. For a fixed strategy, budget and details flag the estimated units do not
  decrease when more videos are requested: if the estimates for \<open>a\<close> and for \<open>c\<close> both
  succeed and \<open>0 < a \<le> c\<close>, the units for \<open>a\<close> are at most the units for \<open>c\<close>.
\<close>
theorem estimate_monotone:
  assumes ea: "estimate_channel_videos_quota s a b d = Inr ea"
      and ec: "estimate_channel_videos_quota s c b d = Inr ec"
      and "0 < a" and ac: "a \<le> c"
  shows "estimated_units ea \<le> estimated_units ec"
proof -
  have m: "min a (max_videos b) \<le> min c (max_videos b)"
    using ac by (simp add: min_def)
  have p: "pages_for (min a (max_videos b)) \<le> pages_for (min c (max_videos b))"
    using m by (rule pages_for_mono)
  have m5: "min (min a (max_videos b)) 500 \<le> min (min c (max_videos b)) 500"
    using m by (simp add: min_def)
  have p5: "pages_for (min (min a (max_videos b)) 500)
              \<le> pages_for (min (min c (max_videos b)) 500)"
    using m5 by (rule pages_for_mono)
  consider (read) "s = ''uploads_playlist'' \<or> s = ''local_sort''" | (search) "s = ''search_api''"
    using estimate_strategy_known [OF ea] by blast
  then show ?thesis
  proof cases
    case read
    have "estimated_units ea =
            min (pages_for (min a (max_videos b))) (max_pages b)
              + (if d then pages_for (min a (max_videos b)) else 0)"
      using ea read by (rule estimate_units_read)
    moreover have "estimated_units ec =
            min (pages_for (min c (max_videos b))) (max_pages b)
              + (if d then pages_for (min c (max_videos b)) else 0)"
      using ec read by (rule estimate_units_read)
    ultimately show ?thesis using p by (simp add: min_def)
  next
    case search
    have "estimated_units ea =
            min (pages_for (min (min a (max_videos b)) 500)) (max_pages b) * 100
              + (if d then pages_for (min (min a (max_videos b)) 500) else 0)"
      using ea unfolding search by (rule estimate_units_search(1))
    moreover have "estimated_units ec =
            min (pages_for (min (min c (max_videos b)) 500)) (max_pages b) * 100
              + (if d then pages_for (min (min c (max_videos b)) 500) else 0)"
      using ec unfolding search by (rule estimate_units_search(1))
    ultimately show ?thesis using p5 by (simp add: min_def)
  qed
qed

text \<open>An instance: 60 and 120 requested videos for the strategy \<open>uploads_playlist\<close>.\<close>
theorem estimate_monotone_witness:
  "estimate_channel_videos_quota ''uploads_playlist'' 60
       \<lparr>max_videos = 200, max_pages = 10, max_quota_units = 1000\<rparr> True =
     Inr \<lparr>estimated_units = 4, strategy = ''uploads_playlist'', est_notes = []\<rparr>
   \<and> estimate_channel_videos_quota ''uploads_playlist'' 120
       \<lparr>max_videos = 200, max_pages = 10, max_quota_units = 1000\<rparr> True =
     Inr \<lparr>estimated_units = 6, strategy = ''uploads_playlist'', est_notes = []\<rparr>
   \<and> (0::int) < 60 \<and> (60::int) \<le> 120
   \<and> estimated_units \<lparr>estimated_units = 4, strategy = ''uploads_playlist'', est_notes = []\<rparr>
       \<le> estimated_units \<lparr>estimated_units = 6, strategy = ''uploads_playlist'', est_notes = []\<rparr>"
proof -
  have a: "estimate_channel_videos_quota ''uploads_playlist'' 60
       \<lparr>max_videos = 200, max_pages = 10, max_quota_units = 1000\<rparr> True =
     Inr \<lparr>estimated_units = 4, strategy = ''uploads_playlist'', est_notes = []\<rparr>"
    by (simp add: estimate_pages pages_for_def)
  have c: "estimate_channel_videos_quota ''uploads_playlist'' 120
       \<lparr>max_videos = 200, max_pages = 10, max_quota_units = 1000\<rparr> True =
     Inr \<lparr>estimated_units = 6, strategy = ''uploads_playlist'', est_notes = []\<rparr>"
    by (simp add: estimate_pages pages_for_def)
  have p: "(0::int) < 60" and le: "(60::int) \<le> 120" by simp_all
  show ?thesis using a c estimate_monotone [OF a c p le] by simp
qed

section \<open>Properties of the reference parser\<close>

subsection \<open>Stripping white space\<close>

lemma rstrip_Cons:
  "rev (dropWhile P (rev (x # s))) =
     (if P x \<and> rev (dropWhile P (rev s)) = [] then [] else x # rev (dropWhile P (rev s)))"
  by (simp add: dropWhile_append dropWhile_eq_Nil_conv)

lemma lstrip_rstrip_commute:
  "dropWhile P (rev (dropWhile P (rev s))) = rev (dropWhile P (rev (dropWhile P s)))"
proof (induction s)
  case Nil
  show ?case by simp
next
  case (Cons x t)
  show ?case
  proof (cases "P x")
    case True
    then show ?thesis
      using Cons.IH by (simp only: rstrip_Cons dropWhile.simps if_True split: if_splits)
        (auto dest: set_dropWhileD)
  next
    case False
    then show ?thesis by (simp only: rstrip_Cons dropWhile.simps if_False simp_thms)
  qed
qed

lemma strip_rstrip: "strip (rev (dropWhile is_space (rev s))) = strip s"
  unfolding strip_def by (simp add: lstrip_rstrip_commute)


lemma strip_at_Cons:
  "strip (CHR ''@'' # rest) = CHR ''@'' # rev (dropWhile is_space (rev rest))"
proof -
  have ns: "\<not> is_space CHR ''@''" by (simp add: is_space_def)
  show ?thesis unfolding strip_def using ns by (simp add: rstrip_Cons del: rev.simps)
qed

lemma strip_examples:
  "strip ''  My_Channel '' = ''My_Channel''"
  "strip '' '' = []"
  "strip ''a/b'' = ''a/b''"
  "strip ''@  My_Channel '' = ''@  My_Channel''"
  by (simp_all add: strip_def is_space_def)

subsection \<open>Explicit handles\<close>

text \<open>
  Claim C8. An input that starts with \<open>@\<close> is read as a handle: the value is the rest of
  the input with the surrounding white space removed. Parsing fails with a parse error when
  that value is empty, and when it contains one of the characters \<open>/\<close>, \<open>?\<close> and \<open>#\<close>.
\<close>
theorem parse_handle:
  "parse_channel_ref urlparse (CHR ''@'' # rest) =
     (if strip rest = [] then Inl (ChannelRefParseError ''Handle cannot be empty'')
      else if CHR ''/'' \<in> set (strip rest) \<or> CHR ''?'' \<in> set (strip rest)
                \<or> CHR ''#'' \<in> set (strip rest)
      then Inl (ChannelRefParseError ''Handle contains invalid URL separator characters'')
      else Inr \<lparr>kind = Handle, ref_value = strip rest, raw = strip (CHR ''@'' # rest)\<rparr>)"
  by (simp add: parse_channel_ref_def normalize_raw_def require_non_empty_def
      reject_separators_def has_separator_def startswith_def strip_at_Cons strip_rstrip Let_def)

text \<open>Three instances: a handle with white space around it, an empty one, one with a slash.\<close>
theorem parse_handle_witness:
  "parse_channel_ref urlparse_plain ''@  My_Channel '' =
     Inr \<lparr>kind = Handle, ref_value = ''My_Channel'', raw = ''@  My_Channel''\<rparr>
   \<and> parse_channel_ref urlparse_plain ''@ '' = Inl (ChannelRefParseError ''Handle cannot be empty'')
   \<and> parse_channel_ref urlparse_plain ''@a/b'' =
       Inl (ChannelRefParseError ''Handle contains invalid URL separator characters'')"
  using parse_handle [of urlparse_plain "''  My_Channel ''"]
    parse_handle [of urlparse_plain "'' ''"]
    parse_handle [of urlparse_plain "''a/b''"]
  by (simp add: strip_examples)

subsection \<open>The invariant of a parsed reference\<close>

lemma path_segment_ok:
  assumes "path_segment pth prefix empty_msg label k r = Inr (Some ref)"
  shows "ref_value ref \<noteq> [] \<and> raw ref = r"
  using assms
  by (auto simp add: path_segment_def require_non_empty_def reject_separators_def Let_def
      split: if_splits)


lemma normalize_raw_ok:
  assumes "normalize_raw user_input = Inr r"
  shows "r = strip user_input \<and> r \<noteq> []"
  using assms by (auto simp add: normalize_raw_def require_non_empty_def Let_def split: if_splits)

lemma try_parse_youtube_url_ok:
  assumes "try_parse_youtube_url urlparse r = Inr (Some ref)" and "r \<noteq> []"
  shows "ref_value ref \<noteq> [] \<and> raw ref = r"
  using assms unfolding try_parse_youtube_url_def Let_def
  by (simp split: option.splits if_splits) (auto dest: path_segment_ok)


lemma lower_host: "lower ''www.youtube.com'' = ''www.youtube.com''"
  by (simp add: lower_def lower_char_def)

lemma strip_user_url:
  "strip '' https://www.youtube.com/user/Bob '' = ''https://www.youtube.com/user/Bob''"
  by (simp add: strip_def is_space_def)

lemma try_user_url:
  "try_parse_youtube_url urlparse_user_url ''https://www.youtube.com/user/Bob'' =
     Inr (Some \<lparr>kind = Username, ref_value = ''Bob'', raw = ''https://www.youtube.com/user/Bob''\<rparr>)"
  by (simp add: try_parse_youtube_url_def urlparse_user_url_def lower_host YOUTUBE_HOSTS_def
      PATH_AT_HANDLE_def PATH_CHANNEL_def PATH_USER_def path_segment_def strip_chars_def
      require_non_empty_def reject_separators_def has_separator_def startswith_def Let_def)

text \<open>
  Claim C9. Whenever \<open>parse_channel_ref\<close> returns a reference, of whatever kind, its value
  is a non-empty string and its \<open>raw\<close> field is the input with the surrounding white space
  removed. This holds for every behaviour of \<open>urlparse\<close>.
\<close>
theorem parse_channel_ref_invariant:
  assumes "parse_channel_ref urlparse user_input = Inr ref"
  shows "ref_value ref \<noteq> [] \<and> raw ref = strip user_input"
proof -
  from assms obtain r where n: "normalize_raw user_input = Inr r"
    unfolding parse_channel_ref_def by (cases "normalize_raw user_input") simp_all
  then have r: "r = strip user_input" "r \<noteq> []"
    using normalize_raw_ok by blast+
  have body: "(if startswith r ''@'' then
            (let h = strip (drop 1 r)
             in case require_non_empty h ''Handle cannot be empty'' of
                  Inl e \<Rightarrow> Inl e
                | Inr _ \<Rightarrow>
                    (case reject_separators h ''Handle'' of
                       Inl e \<Rightarrow> Inl e
                     | Inr _ \<Rightarrow> Inr \<lparr>kind = Handle, ref_value = h, raw = r\<rparr>))
          else if looks_like_channel_id r then
            Inr \<lparr>kind = Channel_id, ref_value = r, raw = r\<rparr>
          else
            (case try_parse_youtube_url urlparse r of
               Inl e \<Rightarrow> Inl e
             | Inr (Some parsed) \<Rightarrow> Inr parsed
             | Inr None \<Rightarrow> Inr \<lparr>kind = Query, ref_value = r, raw = r\<rparr>)) = Inr ref"
    using assms n unfolding parse_channel_ref_def by simp
  show ?thesis
  proof (cases "startswith r ''@''")
    case True
    with body have "ref_value ref \<noteq> [] \<and> raw ref = r"
      by (simp add: require_non_empty_def reject_separators_def Let_def split: if_splits) auto
    then show ?thesis using r by simp
  next
    case False
    note at = this
    show ?thesis
    proof (cases "looks_like_channel_id r")
      case True
      with body at r show ?thesis by auto
    next
      case False
      with body at have
        "try_parse_youtube_url urlparse r = Inr (Some ref)
         \<or> ref = \<lparr>kind = Query, ref_value = r, raw = r\<rparr>"
        by (simp split: sum.splits option.splits)
      then show ?thesis
        using try_parse_youtube_url_ok [of urlparse r ref] r by auto
    qed
  qed
qed

text \<open>An instance: the URL of a user page, with white space around it.\<close>
theorem parse_channel_ref_invariant_witness:
  "parse_channel_ref urlparse_user_url '' https://www.youtube.com/user/Bob '' =
     Inr \<lparr>kind = Username, ref_value = ''Bob'', raw = ''https://www.youtube.com/user/Bob''\<rparr>
   \<and> ref_value \<lparr>kind = Username, ref_value = ''Bob'',
                  raw = ''https://www.youtube.com/user/Bob''\<rparr> \<noteq> []
   \<and> raw \<lparr>kind = Username, ref_value = ''Bob'', raw = ''https://www.youtube.com/user/Bob''\<rparr>
       = strip '' https://www.youtube.com/user/Bob ''"
proof -
  have h: "parse_channel_ref urlparse_user_url '' https://www.youtube.com/user/Bob '' =
     Inr \<lparr>kind = Username, ref_value = ''Bob'', raw = ''https://www.youtube.com/user/Bob''\<rparr>"
    by (simp add: parse_channel_ref_def normalize_raw_def require_non_empty_def strip_user_url
        startswith_def looks_like_channel_id_def try_user_url)
  show ?thesis using h parse_channel_ref_invariant [OF h] by simp
qed


lemma parse_at_handle_fixture:
  "parse_channel_ref urlparse_plain ''@Handle'' =
     Inr \<lparr>kind = Handle, ref_value = ''Handle'', raw = ''@Handle''\<rparr>"
  by (simp add: parse_channel_ref_def normalize_raw_def require_non_empty_def
      reject_separators_def has_separator_def startswith_def strip_def is_space_def Let_def)


section \<open>Properties of the resolver\<close>

lemma invoke_log:
  "snd (snd (invoke f nm part params w)) = snd w @ [Call nm part params]"
  by (simp add: invoke_def split: prod.splits)

lemma invoke_no_videos:
  "nm \<noteq> VideosList \<Longrightarrow>
     videos_list_calls (snd (snd (invoke f nm part params w))) = videos_list_calls (snd w)"
  by (simp add: invoke_log videos_list_calls_def)

lemma resolve_channels_list_world:
  "snd (resolve_channels_list client filter_params include_uploads_playlist w) =
     snd (invoke (channels_list client) ChannelsList
            (join '','' ([''snippet'', ''id'']
               @ (if include_uploads_playlist then [''contentDetails''] else [])))
            filter_params w)"
  unfolding resolve_channels_list_def Let_def
  by (simp split: prod.splits sum.splits json.splits list.splits)

lemma resolve_best_effort_query_world:
  "snd (resolve_best_effort_query client q include_uploads_playlist w) =
     (if strip q = [] then w
      else snd (invoke (search_list client) SearchList ''snippet''
                  [(''q'', JStr q), (''type'', JStr ''channel''), (''maxResults'', JStr ''5'')] w))"
  unfolding resolve_best_effort_query_def
  by (simp split: prod.splits sum.splits json.splits list.splits)

lemma resolve_channels_list_no_videos:
  "videos_list_calls (snd (snd (resolve_channels_list client filter_params iup w)))
     = videos_list_calls (snd w)"
  by (simp only: resolve_channels_list_world invoke_no_videos op_name.distinct
      not_False_eq_True)

lemma resolve_best_effort_query_no_videos:
  "videos_list_calls (snd (snd (resolve_best_effort_query client q iup w)))
     = videos_list_calls (snd w)"
  by (simp add: resolve_best_effort_query_world invoke_no_videos)

lemma resolve_channel_no_videos:
  "videos_list_calls (snd (snd (resolve_channel urlparse client channel_ref mode iup w)))
     = videos_list_calls (snd w)"
  unfolding resolve_channel_def Let_def
  by (simp add: resolve_channels_list_no_videos resolve_best_effort_query_no_videos
      split: sum.splits)







section \<open>Properties of the listing pipelines\<close>

subsection \<open>Validation comes first\<close>

text \<open>
  Claim C6. A continuation token given to the local_sort strategy, an ordering other than
  \<open>date\<close> and \<open>viewCount\<close> given to the search_api strategy, and a blank query given to the
  keyword search are each rejected with \<open>ValueError\<close> while the world is as it was on
  entry: the state of the client is untouched and no call has been added to the log.
\<close>
theorem validation_before_backend:
  "(page_token \<noteq> None \<and> page_token \<noteq> Some [] \<longrightarrow>
      list_channel_videos_local_sorted urlparse int_of_str client channel_ref order_by max_videos'
        page_token include_shorts include_live parts_level budget w =
      (Inl (ValueError ''page_token is not supported for local_sort''), w))
   \<and> (order_by \<notin> {''date'', ''viewCount''} \<longrightarrow>
      list_channel_videos_search_api urlparse client channel_ref order_by max_videos'
        page_token include_shorts include_live parts_level budget w =
      (Inl (ValueError ''search_api supports only order_by in {'date','viewCount'}''), w))
   \<and> (strip q = [] \<longrightarrow>
      search_channel_videos_page urlparse client channel_ref q page_token max_videos'
        include_shorts include_live parts_level order budget w =
      (Inl (ValueError ''query is required''), w))"
  by (simp add: list_channel_videos_local_sorted_def list_channel_videos_search_api_def
      search_channel_videos_page_def)

text \<open>One instance of each of the three rejections.\<close>
theorem validation_before_backend_witness:
  "list_channel_videos_local_sorted urlparse_plain int_of_str_none (fake_client [] [] [] [])
       ''@Handle'' ''viewCount'' 10 (Some ''NEXT'') True True ''basic'' budget_200_10_1000 ((), []) =
     (Inl (ValueError ''page_token is not supported for local_sort''), ((), []))
   \<and> list_channel_videos_search_api urlparse_plain (fake_client [] [] [] [])
       ''@Handle'' ''likeCount'' 10 None True True ''basic'' budget_200_10_1000 ((), []) =
     (Inl (ValueError ''search_api supports only order_by in {'date','viewCount'}''), ((), []))
   \<and> search_channel_videos_page urlparse_plain (fake_client [] [] [] [])
       ''@Handle'' ''   '' None 10 True True ''basic'' ''date'' budget_200_10_1000 ((), []) =
     (Inl (ValueError ''query is required''), ((), []))"
  using validation_before_backend [of "Some ''NEXT''" urlparse_plain int_of_str_none
      "fake_client [] [] [] []" "''@Handle''" "''viewCount''" 10 True True "''basic''"
      budget_200_10_1000 "((), [])" "''   ''" "''date''"]
    validation_before_backend [of None urlparse_plain int_of_str_none
      "fake_client [] [] [] []" "''@Handle''" "''likeCount''" 10 True True "''basic''"
      budget_200_10_1000 "((), [])" "''   ''" "''date''"]
  by (simp add: strip_def is_space_def)

subsection \<open>The uploads_playlist strategy\<close>

lemma inventory_filter_videos_all: "inventory_filter_videos vs True True = Inr vs"
  by (induction vs) simp_all

lemma list_channel_videos_page_after_playlist:
  assumes q: "estimate_channel_videos_quota ''uploads_playlist'' max_videos' budget True
                = Inr quota_est"
      and r: "resolve_channel urlparse client channel_ref ''strict'' True w = (Inr resolved, w1)"
      and u: "uploads_playlist_id resolved = Some uploads" "uploads \<noteq> []"
      and p: "invoke (playlist_items_list client) PlaylistItemsList ''snippet,contentDetails''
                ([(''playlistId'', JStr uploads), (''maxResults'', JStr ''50'')]
                   @ page_token_param page_token) w1 = (Inr playlist_resp, w2)"
  shows "list_channel_videos_page urlparse client channel_ref max_videos' page_token
           include_shorts include_live parts_level budget w =
         (let extracted = extract_video_ids (dict_get playlist_resp ''items'') None;
              cut = (max_videos' < int (length extracted));
              video_ids = (if cut then py_take max_videos' extracted else extracted)
          in if video_ids = [] then (Inr (empty_page quota_est), w2)
             else
               (case invoke (videos_list client) VideosList (videos_part parts_level)
                       [(''id'', JStr (join '','' video_ids))] w2 of
                  (Inl e, w3) \<Rightarrow> (Inl e, w3)
                | (Inr videos_resp, w3) \<Rightarrow>
                    (case inventory_filter_videos (json_list (dict_get videos_resp ''items''))
                            include_shorts include_live of
                       Inl e \<Rightarrow> (Inl e, w3)
                     | Inr filtered \<Rightarrow>
                         (Inr \<lparr>items = filtered,
                               next_page_token =
                                 str_or_none (dict_get playlist_resp ''nextPageToken''),
                               quota_estimate = quota_est,
                               truncated = cut,
                               applied_max_videos = int (length video_ids)\<rparr>,
                          w3))))"
  unfolding list_channel_videos_page_def
  using p by (simp only: q r u sum.case prod.case option.case if_False append.simps)

lemma resolve_fixture:
  "resolve_channel urlparse_plain (inventory_client es) ''@Handle'' ''strict'' True ((), []) =
     (Inr resolved_x,
      ((), [Call ChannelsList ''snippet,id,contentDetails'' [(''forHandle'', JStr ''@Handle'')]]))"
  by (simp add: resolve_channel_def parse_at_handle_fixture resolve_channels_list_def
      invoke_def inventory_client_def fake_client_def channel_item_def dict_get_def get_str_def
      str_or_none_def extract_uploads_playlist_id_def resolved_x_def Let_def)

lemma estimate_fixture:
  "estimate_channel_videos_quota ''uploads_playlist'' 2 budget_200_10_1000 True =
     Inr \<lparr>estimated_units = 2, strategy = ''uploads_playlist'', est_notes = []\<rparr>"
  by (simp add: estimate_pages pages_for_def budget_200_10_1000_def)

lemma playlist_fixture:
  "invoke (playlist_items_list (inventory_client es)) PlaylistItemsList
       ''snippet,contentDetails''
       ([(''playlistId'', JStr ''UU_x''), (''maxResults'', JStr ''50'')] @ page_token_param None)
       ((), [Call ChannelsList ''snippet,id,contentDetails'' [(''forHandle'', JStr ''@Handle'')]]) =
     (Inr [(''items'', JList es), (''nextPageToken'', JStr ''NEXT'')],
      ((), [Call ChannelsList ''snippet,id,contentDetails'' [(''forHandle'', JStr ''@Handle'')],
            Call PlaylistItemsList ''snippet,contentDetails''
              [(''playlistId'', JStr ''UU_x''), (''maxResults'', JStr ''50'')]]))"
  by (simp add: invoke_def inventory_client_def fake_client_def page_token_param_def)

lemma extract_three:
  "extract_video_ids
     (dict_get [(''items'', JList [playlist_item ''v1'', playlist_item ''v2'', playlist_item ''v3'']),
                (''nextPageToken'', JStr ''NEXT'')] ''items'') None = [''v1'', ''v2'', ''v3'']"
  by (simp add: extract_video_ids_def dict_get_def playlist_item_def playlist_video_id_def)

lemma extract_malformed:
  "extract_video_ids
     (dict_get [(''items'', JList [JStr ''junk'', JDict [(''snippet'', JDict [])]]),
                (''nextPageToken'', JStr ''NEXT'')] ''items'') None = []"
  by (simp add: extract_video_ids_def dict_get_def playlist_video_id_def)

lemma videos_fixture:
  "invoke (videos_list (inventory_client es)) VideosList (videos_part ''basic'')
       [(''id'', JStr (join '','' [''v1'', ''v2'']))]
       ((), [Call ChannelsList ''snippet,id,contentDetails'' [(''forHandle'', JStr ''@Handle'')],
             Call PlaylistItemsList ''snippet,contentDetails''
               [(''playlistId'', JStr ''UU_x''), (''maxResults'', JStr ''50'')]]) =
     (Inr [(''items'', JList [video_item ''v1'', video_item ''v2''])],
      ((), [Call ChannelsList ''snippet,id,contentDetails'' [(''forHandle'', JStr ''@Handle'')],
            Call PlaylistItemsList ''snippet,contentDetails''
              [(''playlistId'', JStr ''UU_x''), (''maxResults'', JStr ''50'')],
            Call VideosList ''snippet,statistics,contentDetails'' [(''id'', JStr ''v1,v2'')]]))"
  by (simp add: invoke_def inventory_client_def fake_client_def videos_part_def)

text \<open>
  Claim C10. When no video identifier can be extracted from the page of playlist items,
  the pipeline returns the empty page: no items, no continuation token, \<open>truncated\<close> false.
  It does so whatever continuation token the response carried, and the log of the final
  world holds no detail-fetch call that was not there on entry.
\<close>
theorem uploads_playlist_no_ids_empty_page:
  assumes "estimate_channel_videos_quota ''uploads_playlist'' max_videos' budget True
             = Inr quota_est"
      and "resolve_channel urlparse client channel_ref ''strict'' True w = (Inr resolved, w1)"
      and "uploads_playlist_id resolved = Some uploads" and "uploads \<noteq> []"
      and "invoke (playlist_items_list client) PlaylistItemsList ''snippet,contentDetails''
             ([(''playlistId'', JStr uploads), (''maxResults'', JStr ''50'')]
                @ page_token_param page_token) w1 = (Inr playlist_resp, w2)"
      and "extract_video_ids (dict_get playlist_resp ''items'') None = []"
  shows "list_channel_videos_page urlparse client channel_ref max_videos' page_token
           include_shorts include_live parts_level budget w =
         (Inr \<lparr>items = [], next_page_token = None, quota_estimate = quota_est,
               truncated = False, applied_max_videos = 0\<rparr>, w2)
         \<and> videos_list_calls (snd w2) = videos_list_calls (snd w)"
proof -
  have a: "list_channel_videos_page urlparse client channel_ref max_videos' page_token
           include_shorts include_live parts_level budget w = (Inr (empty_page quota_est), w2)"
    using list_channel_videos_page_after_playlist
        [OF assms(1-5), of include_shorts include_live parts_level] assms(6)
    by (simp add: py_take_def Let_def)
  have "videos_list_calls (snd w1) = videos_list_calls (snd w)"
    using resolve_channel_no_videos [of urlparse client channel_ref "''strict''" True w]
    by (simp add: assms(2))
  moreover have "videos_list_calls (snd w2) = videos_list_calls (snd w1)"
    using invoke_no_videos [of PlaylistItemsList "playlist_items_list client"
        "''snippet,contentDetails''"
        "[(''playlistId'', JStr uploads), (''maxResults'', JStr ''50'')]
           @ page_token_param page_token" w1] assms(5)
    by simp
  ultimately show ?thesis using a by (simp add: empty_page_def)
qed

text \<open>
  An instance: a page whose two entries are malformed and whose continuation token is
  \<open>NEXT\<close>.
\<close>
theorem uploads_playlist_no_ids_empty_page_witness:
  "list_channel_videos_page urlparse_plain
       (inventory_client [JStr ''junk'', JDict [(''snippet'', JDict [])]])
       ''@Handle'' 2 None True True ''basic'' budget_200_10_1000 ((), []) =
     (Inr \<lparr>items = [], next_page_token = None,
           quota_estimate =
             \<lparr>estimated_units = 2, strategy = ''uploads_playlist'', est_notes = []\<rparr>,
           truncated = False, applied_max_videos = 0\<rparr>,
      ((), [Call ChannelsList ''snippet,id,contentDetails'' [(''forHandle'', JStr ''@Handle'')],
            Call PlaylistItemsList ''snippet,contentDetails''
              [(''playlistId'', JStr ''UU_x''), (''maxResults'', JStr ''50'')]]))
   \<and> videos_list_calls
         [Call ChannelsList ''snippet,id,contentDetails'' [(''forHandle'', JStr ''@Handle'')],
          Call PlaylistItemsList ''snippet,contentDetails''
            [(''playlistId'', JStr ''UU_x''), (''maxResults'', JStr ''50'')]] = []"
proof -
  have u: "uploads_playlist_id resolved_x = Some ''UU_x''" and n: "''UU_x'' \<noteq> []"
    by (simp_all add: resolved_x_def)
  show ?thesis
    using uploads_playlist_no_ids_empty_page
      [OF estimate_fixture resolve_fixture u n playlist_fixture extract_malformed,
       of True True "''basic''"]
    by (simp add: videos_list_calls_def)
qed

text \<open>
  Claim C4. When three identifiers are extracted from the page of playlist items and at
  most two videos are asked for, shorts and live videos included, and the detail fetch
  answers with the records of the two identifiers kept, then the page holds exactly these
  two records, \<open>truncated\<close> is true, and the continuation token of the page is the one of
  the playlist response (a non-empty string is passed through as it is).
\<close>
theorem uploads_playlist_three_ids_max_two:
  assumes "estimate_channel_videos_quota ''uploads_playlist'' 2 budget True = Inr quota_est"
      and "resolve_channel urlparse client channel_ref ''strict'' True w = (Inr resolved, w1)"
      and "uploads_playlist_id resolved = Some uploads" and "uploads \<noteq> []"
      and "invoke (playlist_items_list client) PlaylistItemsList ''snippet,contentDetails''
             ([(''playlistId'', JStr uploads), (''maxResults'', JStr ''50'')]
                @ page_token_param page_token) w1 = (Inr playlist_resp, w2)"
      and "extract_video_ids (dict_get playlist_resp ''items'') None = [a, b, c]"
      and "invoke (videos_list client) VideosList (videos_part parts_level)
             [(''id'', JStr (join '','' [a, b]))] w2 = (Inr videos_resp, w3)"
      and "dict_get videos_resp ''items'' = JList [va, vb]"
  shows "list_channel_videos_page urlparse client channel_ref 2 page_token
           True True parts_level budget w =
         (Inr \<lparr>items = [va, vb],
               next_page_token = str_or_none (dict_get playlist_resp ''nextPageToken''),
               quota_estimate = quota_est, truncated = True, applied_max_videos = 2\<rparr>, w3)
         \<and> (\<forall>t. dict_get playlist_resp ''nextPageToken'' = JStr t \<and> t \<noteq> [] \<longrightarrow>
                str_or_none (dict_get playlist_resp ''nextPageToken'') = Some t)"
proof -
  have "list_channel_videos_page urlparse client channel_ref 2 page_token
           True True parts_level budget w =
         (Inr \<lparr>items = [va, vb],
               next_page_token = str_or_none (dict_get playlist_resp ''nextPageToken''),
               quota_estimate = quota_est, truncated = True, applied_max_videos = 2\<rparr>, w3)"
    using list_channel_videos_page_after_playlist [OF assms(1-5), of True True parts_level]
      assms(6) assms(7) assms(8)
    by (simp add: py_take_def Let_def json_list_def inventory_filter_videos_all)
  then show ?thesis by (simp add: str_or_none_def)
qed

text \<open>
  An instance, from the unit test of the inventory: three playlist items, the token
  \<open>NEXT\<close>, at most two videos.
\<close>
theorem uploads_playlist_three_ids_max_two_witness:
  "list_channel_videos_page urlparse_plain
       (inventory_client [playlist_item ''v1'', playlist_item ''v2'', playlist_item ''v3''])
       ''@Handle'' 2 None True True ''basic'' budget_200_10_1000 ((), []) =
     (Inr \<lparr>items = [video_item ''v1'', video_item ''v2''], next_page_token = Some ''NEXT'',
           quota_estimate =
             \<lparr>estimated_units = 2, strategy = ''uploads_playlist'', est_notes = []\<rparr>,
           truncated = True, applied_max_videos = 2\<rparr>,
      ((), [Call ChannelsList ''snippet,id,contentDetails'' [(''forHandle'', JStr ''@Handle'')],
            Call PlaylistItemsList ''snippet,contentDetails''
              [(''playlistId'', JStr ''UU_x''), (''maxResults'', JStr ''50'')],
            Call VideosList ''snippet,statistics,contentDetails'' [(''id'', JStr ''v1,v2'')]]))"
proof -
  have u: "uploads_playlist_id resolved_x = Some ''UU_x''" and n: "''UU_x'' \<noteq> []"
    by (simp_all add: resolved_x_def)
  have v: "dict_get [(''items'', JList [video_item ''v1'', video_item ''v2''])] ''items'' =
             JList [video_item ''v1'', video_item ''v2'']"
    by (simp add: dict_get_def)
  show ?thesis
    using uploads_playlist_three_ids_max_two
      [OF estimate_fixture resolve_fixture u n playlist_fixture extract_three videos_fixture v]
    by (simp add: dict_get_def str_or_none_def)
qed

subsection \<open>The search_api strategy\<close>

lemma resolve_fixture_search:
  "resolve_channel urlparse_plain (search_client its) ''@Handle'' ''strict'' False ((), []) =
     (Inr \<lparr>channel_id = Some ''UC_x'', title = Some ''T'', handle = Some ''@Handle'',
           uploads_playlist_id = None, warnings = [], candidates = []\<rparr>,
      ((), [Call ChannelsList ''snippet,id'' [(''forHandle'', JStr ''@Handle'')]]))"
  by (simp add: resolve_channel_def parse_at_handle_fixture resolve_channels_list_def
      invoke_def search_client_def fake_client_def channel_item_def dict_get_def get_str_def
      str_or_none_def Let_def)

lemma estimate_fixture_search:
  "estimate_channel_videos_quota ''search_api'' 2 budget_200_10_1000 True =
     Inr \<lparr>estimated_units = 101, strategy = ''search_api'', est_notes = []\<rparr>"
  by (simp add: estimate_pages pages_for_def budget_200_10_1000_def)

lemma extract_search_three:
  "extract_search_video_ids
     (JList [search_video_item ''v1'', search_video_item ''v2'', search_video_item ''v3'']) 2
     = [''v1'', ''v2'']"
  by (simp add: extract_search_video_ids_def search_video_item_def search_video_id_def
      dict_get_def str_or_none_def)

lemma search_api_fixture:
  "list_channel_videos_search_api urlparse_plain
       (search_client [search_video_item ''v1'', search_video_item ''v2'',
                       search_video_item ''v3''])
       ''@Handle'' ''date'' 2 None True True ''basic'' budget_200_10_1000 ((), []) =
     (Inr \<lparr>items = [video_item ''v1'', video_item ''v2''], next_page_token = Some ''NEXT'',
           quota_estimate = \<lparr>estimated_units = 101, strategy = ''search_api'', est_notes = []\<rparr>,
           truncated = False, applied_max_videos = 2\<rparr>,
      ((), [Call ChannelsList ''snippet,id'' [(''forHandle'', JStr ''@Handle'')],
            Call SearchList ''snippet''
              [(''channelId'', JStr ''UC_x''), (''type'', JStr ''video''),
               (''order'', JStr ''date''), (''maxResults'', JStr ''50'')],
            Call VideosList ''snippet,statistics,contentDetails'' [(''id'', JStr ''v1,v2'')]]))"
proof -
  have s: "invoke (search_list (search_client its)) SearchList part params w =
             (Inr [(''items'', JList its), (''nextPageToken'', JStr ''NEXT'')],
              (fst w, snd w @ [Call SearchList part params]))" for its part params w
    by (simp add: invoke_def search_client_def fake_client_def)
  have v: "invoke (videos_list (search_client its)) VideosList part params w =
             (Inr [(''items'', JList [video_item ''v1'', video_item ''v2''])],
              (fst w, snd w @ [Call VideosList part params]))" for its part params w
    by (simp add: invoke_def search_client_def fake_client_def)
  have f: "filter_videos vs True True = Inr vs" for vs
    by (induction vs) simp_all
  show ?thesis
    unfolding list_channel_videos_search_api_def
    by (simp add: estimate_fixture_search resolve_fixture_search s v f dict_get_def
        extract_search_three opt_json_def page_token_param_def videos_part_def json_list_def
        str_or_none_def Let_def)
qed

text \<open>
  Claim C2 asks that \<open>truncated\<close> be true exactly when the pipeline stopped before the end
  of the results. The search_api strategy does not do this: every page it returns has
  \<open>truncated\<close> false, also when the extraction stopped at the limit with more items left.
\<close>
theorem search_api_truncated_never_set:
  assumes "list_channel_videos_search_api urlparse client channel_ref order_by max_videos'
             page_token include_shorts include_live parts_level budget w = (Inr page, w')"
  shows "truncated page = False"
  using assms unfolding list_channel_videos_search_api_def Let_def
  by (simp add: empty_page_def split: if_splits sum.splits prod.splits) auto

text \<open>
  An instance: the search answers with three videos, at most two are asked for; two are
  returned, three could have been extracted, and \<open>truncated\<close> is false.
\<close>
theorem search_api_truncated_never_set_witness:
  "list_channel_videos_search_api urlparse_plain
       (search_client [search_video_item ''v1'', search_video_item ''v2'',
                       search_video_item ''v3''])
       ''@Handle'' ''date'' 2 None True True ''basic'' budget_200_10_1000 ((), []) =
     (Inr \<lparr>items = [video_item ''v1'', video_item ''v2''], next_page_token = Some ''NEXT'',
           quota_estimate = \<lparr>estimated_units = 101, strategy = ''search_api'', est_notes = []\<rparr>,
           truncated = False, applied_max_videos = 2\<rparr>,
      ((), [Call ChannelsList ''snippet,id'' [(''forHandle'', JStr ''@Handle'')],
            Call SearchList ''snippet''
              [(''channelId'', JStr ''UC_x''), (''type'', JStr ''video''),
               (''order'', JStr ''date''), (''maxResults'', JStr ''50'')],
            Call VideosList ''snippet,statistics,contentDetails'' [(''id'', JStr ''v1,v2'')]]))
   \<and> extract_search_video_ids
         (JList [search_video_item ''v1'', search_video_item ''v2'', search_video_item ''v3'']) 3
       = [''v1'', ''v2'', ''v3'']
   \<and> truncated \<lparr>items = [video_item ''v1'', video_item ''v2''], next_page_token = Some ''NEXT'',
           quota_estimate = \<lparr>estimated_units = 101, strategy = ''search_api'', est_notes = []\<rparr>,
           truncated = False, applied_max_videos = 2\<rparr> = False"
proof -
  have e: "extract_search_video_ids
         (JList [search_video_item ''v1'', search_video_item ''v2'', search_video_item ''v3'']) 3
       = [''v1'', ''v2'', ''v3'']"
    by (simp add: extract_search_video_ids_def search_video_item_def search_video_id_def
        dict_get_def str_or_none_def)
  show ?thesis
    using search_api_fixture search_api_truncated_never_set [OF search_api_fixture] e
    by simp
qed

subsection \<open>Extraction of identifiers\<close>

lemma extract_loop_distinct:
  "distinct out \<Longrightarrow> set out \<subseteq> seen \<Longrightarrow> distinct (extract_loop its limit out seen)"
proof (induction its arbitrary: out seen)
  case Nil
  then show ?case by simp
next
  case (Cons it its)
  show ?case
  proof (cases "case limit of None \<Rightarrow> False | Some l \<Rightarrow> l \<le> int (length out)")
    case True
    then show ?thesis using Cons.prems by simp
  next
    case False
    note lim = this
    show ?thesis
    proof (cases "playlist_video_id it")
      case None
      then show ?thesis using lim Cons by simp
    next
      case (Some vid)
      show ?thesis
      proof (cases "vid \<in> seen")
        case True
        then show ?thesis using lim Some Cons by simp
      next
        case False
        have "distinct (out @ [vid])" and "set (out @ [vid]) \<subseteq> insert vid seen"
          using False Cons.prems by auto
        then have "distinct (extract_loop its limit (out @ [vid]) (insert vid seen))"
          by (rule Cons.IH)
        then show ?thesis using lim Some False by simp
      qed
    qed
  qed
qed

text \<open>
  Claim C7 asks that every strategy drop repeated identifiers. The extraction from
  playlist items does: its result never holds an identifier twice. The extraction from
  search results has no such rule: an identifier that the response holds twice is
  returned twice.
\<close>
theorem search_extraction_keeps_duplicates:
  "(\<forall>items limit. distinct (extract_video_ids items limit))
   \<and> extract_video_ids (JList [playlist_item ''v1'', playlist_item ''v1'']) (Some 5) = [''v1'']
   \<and> extract_search_video_ids (JList [search_video_item ''v1'', search_video_item ''v1'']) 5
       = [''v1'', ''v1'']"
proof (intro conjI allI)
  fix items' limit
  show "distinct (extract_video_ids items' limit)"
    unfolding extract_video_ids_def
    by (cases items') (simp_all add: extract_loop_distinct)
next
  show "extract_video_ids (JList [playlist_item ''v1'', playlist_item ''v1'']) (Some 5) = [''v1'']"
    by (simp add: extract_video_ids_def playlist_item_def playlist_video_id_def dict_get_def)
next
  show "extract_search_video_ids (JList [search_video_item ''v1'', search_video_item ''v1'']) 5
       = [''v1'', ''v1'']"
    by (simp add: extract_search_video_ids_def search_video_item_def search_video_id_def
        dict_get_def str_or_none_def)
qed

end
